theory Spec2Isabelle
  imports Complex_Main "HOL-Library.AList"
begin

section \<open>Python values, exceptions and requests\<close>

text \<open>
  The values that travel between the handle and the dispatcher: decoded JSON and the
  Python literals the handle builds itself. A dict is kept as an association list in
  insertion order; a key is looked up with \<open>map_of\<close> and written with
  \<open>AList.update\<close>, which replaces the value of a key that is present and appends a
  key that is not, as a Python dict does.
\<close>

datatype pyval =
    PNone
  | PBool bool
  | PInt int
  | PFloat real
  | PStr string
  | PList "pyval list"
  | PDict "(string \<times> pyval) list"

text \<open>
  The exceptions of the module: \<open>InvalidConsoleLine\<close> is raised by the handle itself,
  \<open>KeyError\<close> and \<open>TypeError\<close> by subscripting and iterating a decoded response,
  \<open>RemoteError\<close> (with the HTTP status) and \<open>TimeoutError\<close> by the dispatcher.
\<close>

datatype exn =
    InvalidConsoleLine
  | KeyError string
  | TypeError
  | RemoteError nat
  | TimeoutError

text \<open>\<open>d[k]\<close> with a string key: only a dict can be subscripted by a string.\<close>

fun getitem :: "pyval \<Rightarrow> string \<Rightarrow> exn + pyval" where
  "getitem (PDict kvs) k = (case map_of kvs k of None \<Rightarrow> Inl (KeyError k) | Some v \<Rightarrow> Inr v)"
| "getitem PNone k = Inl TypeError"
| "getitem (PBool b) k = Inl TypeError"
| "getitem (PInt i) k = Inl TypeError"
| "getitem (PFloat x) k = Inl TypeError"
| "getitem (PStr s) k = Inl TypeError"
| "getitem (PList xs) k = Inl TypeError"

text \<open>
  \<open>for x in d\<close>: a list gives its elements, a dict its keys, a string its characters;
  nothing else can be iterated.
\<close>

fun iter :: "pyval \<Rightarrow> exn + pyval list" where
  "iter (PList xs) = Inr xs"
| "iter (PDict kvs) = Inr (map (\<lambda>kv. PStr (fst kv)) (AList.clearjunk kvs))"
| "iter (PStr s) = Inr (map (\<lambda>c. PStr [c]) s)"
| "iter PNone = Inl TypeError"
| "iter (PBool b) = Inl TypeError"
| "iter (PInt i) = Inl TypeError"
| "iter (PFloat x) = Inl TypeError"

text \<open>
  A parameter with a default value is an optional argument: \<open>None\<close> is the call that
  leaves the argument out.
\<close>

definition dflt :: "'a \<Rightarrow> 'a option \<Rightarrow> 'a" where
  "dflt d x = (case x of None \<Rightarrow> d | Some v \<Rightarrow> v)"

datatype http_verb = GET | POST | PUT | DELETE

text \<open>
  The URL templates of \<open>routes.SERVER\<close> are not part of the sources at hand; a
  template is named by its attribute, and \<open>Format t x\<close> is \<open>SERVER.t.format(x)\<close>.
\<close>

datatype route =
    SERVER_delete
  | SERVER_get
  | SERVER_update
  | SERVER_console
  | SERVER_sync
  | SERVER_duplicate
  | SERVER_ftp
  | SERVER_stop
  | SERVER_start
  | SERVER_reset
  | SERVER_files
  | SERVER_backups
  | SERVER_metrics

datatype address = Format route pyval

text \<open>
  One call of a dispatcher verb, with the arguments as the handle passes them:
  \<open>None\<close> is a keyword argument that is left out.
\<close>

record request =
  req_verb :: http_verb
  req_url :: address
  req_params :: "(string \<times> pyval) list option"
  req_data :: "(string \<times> pyval) list option"
  req_read_json :: "bool option"
  req_timeout :: "int option"

section \<open>The dispatcher\<close>

text \<open>
  Modelled from the spec: the request dispatcher (the \<open>context\<close> object with its verbs
  \<open>_get\<close>, \<open>_post\<close>, \<open>_put\<close> and \<open>_delete\<close>) is not among the sources. It is the only
  network boundary; a verb issues one call and gives back the decoded body, or fails
  with a remote or a timeout error that reaches the caller unchanged. What the remote side
  answers is a parameter: \<open>remote\<close> maps the calls issued so far and the new call to the
  outcome.
\<close>

record dispatcher =
  remote :: "request list \<Rightarrow> request \<Rightarrow> exn + pyval"

text \<open>
  Modelled from the spec: the constructor of \<open>ServerBase\<close> is not among the sources. A
  handle holds a reference to the shared dispatcher and its identifying key.
\<close>

record ServerAwaiting =
  ctx :: dispatcher
  server_id :: pyval

text \<open>
  Modelled from the spec: the child handles \<open>AwaitingFile\<close> and \<open>AwaitingBackup\<close> are
  not among the sources. Each is identified by the server id and its natural key.
\<close>

record AwaitingFile =
  file_ctx :: dispatcher
  file_server_id :: pyval
  file_pathway :: pyval

record AwaitingBackup =
  backup_ctx :: dispatcher
  backup_server_id :: pyval
  backup_key :: pyval

text \<open>
  Modelled from the spec: the model classes are not among the sources. A model is a
  read-only view over the raw response it was built from. A constructor may refuse a
  response (one that lacks a field the class reads) and raise; which responses a class
  refuses, and with which exception, is a parameter: \<open>ServerModel_raises c d\<close> is the
  exception that \<open>ServerModel(d)\<close> raises, \<open>None\<close> when it builds the model.
\<close>

datatype ServerModel = ServerModel pyval
datatype FileModel = FileModel pyval
datatype BackupModel = BackupModel pyval
datatype MetricsModel = MetricsModel pyval

record model_classes =
  ServerModel_raises :: "pyval \<Rightarrow> exn option"
  FileModel_raises :: "pyval \<Rightarrow> exn option"
  BackupModel_raises :: "pyval \<Rightarrow> exn option"
  MetricsModel_raises :: "pyval \<Rightarrow> exn option"

definition new_ServerModel :: "model_classes \<Rightarrow> pyval \<Rightarrow> exn + ServerModel" where
  "new_ServerModel c d =
     (case ServerModel_raises c d of Some e \<Rightarrow> Inl e | None \<Rightarrow> Inr (ServerModel d))"

definition new_FileModel :: "model_classes \<Rightarrow> pyval \<Rightarrow> exn + FileModel" where
  "new_FileModel c d =
     (case FileModel_raises c d of Some e \<Rightarrow> Inl e | None \<Rightarrow> Inr (FileModel d))"

definition new_BackupModel :: "model_classes \<Rightarrow> pyval \<Rightarrow> exn + BackupModel" where
  "new_BackupModel c d =
     (case BackupModel_raises c d of Some e \<Rightarrow> Inl e | None \<Rightarrow> Inr (BackupModel d))"

definition new_MetricsModel :: "model_classes \<Rightarrow> pyval \<Rightarrow> exn + MetricsModel" where
  "new_MetricsModel c d =
     (case MetricsModel_raises c d of Some e \<Rightarrow> Inl e | None \<Rightarrow> Inr (MetricsModel d))"

text \<open>
  Modelled from the spec: \<open>ServerSettings\<close> is not among the sources. Its attribute
  \<open>playload\<close> is the wire-format mapping of the options that are set.
\<close>

record ServerSettings =
  playload :: "(string \<times> pyval) list"

text \<open>
  What a coroutine of the handle runs in: the handle object itself (\<open>self\<close>), the calls
  issued to the dispatcher so far, oldest first, and the model classes the module
  imports. A coroutine returns a value or raises, and leaves a new state.
\<close>

record world =
  self :: ServerAwaiting
  calls :: "request list"
  models :: model_classes

type_synonym 'a aio = "world \<Rightarrow> (exn + 'a) \<times> world"

definition return_value :: "'a \<Rightarrow> 'a aio" where
  "return_value x w = (Inr x, w)"

definition raise :: "exn \<Rightarrow> 'a aio" where
  "raise e w = (Inl e, w)"

definition await :: "'a aio \<Rightarrow> ('a \<Rightarrow> 'b aio) \<Rightarrow> 'b aio" where
  "await m f w = (case m w of (Inl e, w') \<Rightarrow> (Inl e, w') | (Inr x, w') \<Rightarrow> f x w')"

definition lift :: "exn + 'a \<Rightarrow> 'a aio" where
  "lift r w = (r, w)"

definition dispatch :: "dispatcher \<Rightarrow> request \<Rightarrow> pyval aio" where
  "dispatch c r w = (remote c (calls w) r, w\<lparr>calls := calls w @ [r]\<rparr>)"

definition ctx_get ::
  "dispatcher \<Rightarrow> address \<Rightarrow> (string \<times> pyval) list option \<Rightarrow> int option \<Rightarrow> pyval aio" where
  "ctx_get c u p t =
     dispatch c \<lparr>req_verb = GET, req_url = u, req_params = p, req_data = None,
                 req_read_json = None, req_timeout = t\<rparr>"

definition ctx_post ::
  "dispatcher \<Rightarrow> address \<Rightarrow> (string \<times> pyval) list option \<Rightarrow> bool option \<Rightarrow> int option
     \<Rightarrow> pyval aio" where
  "ctx_post c u d rj t =
     dispatch c \<lparr>req_verb = POST, req_url = u, req_params = None, req_data = d,
                 req_read_json = rj, req_timeout = t\<rparr>"

definition ctx_put ::
  "dispatcher \<Rightarrow> address \<Rightarrow> (string \<times> pyval) list option \<Rightarrow> pyval aio" where
  "ctx_put c u d =
     dispatch c \<lparr>req_verb = PUT, req_url = u, req_params = None, req_data = d,
                 req_read_json = None, req_timeout = None\<rparr>"

definition ctx_delete :: "dispatcher \<Rightarrow> address \<Rightarrow> int option \<Rightarrow> pyval aio" where
  "ctx_delete c u t =
     dispatch c \<lparr>req_verb = DELETE, req_url = u, req_params = None, req_data = None,
                 req_read_json = None, req_timeout = t\<rparr>"

section \<open>The server handle\<close>

definition delete :: "int option \<Rightarrow> unit aio" where
  "delete timeout w =
     await (ctx_delete (ctx (self w)) (Format SERVER_delete (server_id (self w)))
              (Some (dflt 60 timeout)))
       (\<lambda>_. return_value ()) w"

definition get :: "ServerModel aio" where
  "get w =
     await (ctx_get (ctx (self w)) (Format SERVER_get (server_id (self w))) None None)
       (\<lambda>d. lift (new_ServerModel (models w) d)) w"

definition update :: "ServerSettings \<Rightarrow> unit aio" where
  "update settings w =
     await (ctx_put (ctx (self w)) (Format SERVER_update (server_id (self w)))
              (Some (AList.update ''server_id'' (server_id (self w)) (playload settings))))
       (\<lambda>_. return_value ()) w"

definition console_send :: "string \<Rightarrow> unit aio" where
  "console_send line w =
     await (ctx_post (ctx (self w)) (Format SERVER_console (server_id (self w)))
              (Some [(''line'', PStr line)]) None None)
       (\<lambda>_. return_value ()) w"

definition console_retrive :: "int option \<Rightarrow> pyval aio" where
  "console_retrive lines w =
     (if dflt 1000 lines < 1 \<or> dflt 1000 lines > 100000 then raise InvalidConsoleLine w
      else
        await (ctx_get (ctx (self w)) (Format SERVER_console (server_id (self w)))
                 (Some [(''max_lines'', PInt (dflt 1000 lines))]) None)
          (\<lambda>d. lift (getitem d ''lines'')) w)"

definition sync :: "unit aio" where
  "sync w =
     await (ctx_post (ctx (self w)) (Format SERVER_sync (server_id (self w))) None None None)
       (\<lambda>_. return_value ()) w"

definition duplicate :: "bool option \<Rightarrow> int option \<Rightarrow> (ServerModel \<times> ServerAwaiting) aio" where
  "duplicate sync_first timeout w =
     await (if dflt False sync_first then sync else return_value ())
       (\<lambda>_ w1.
          await (ctx_post (ctx (self w1)) (Format SERVER_duplicate (server_id (self w1)))
                   None (Some True) (Some (dflt 60 timeout)))
            (\<lambda>d w2.
               await (lift (new_ServerModel (models w2) d))
                 (\<lambda>m. await (lift (getitem d ''id''))
                        (\<lambda>i. return_value (m, \<lparr>ctx = ctx (self w2), server_id = i\<rparr>)))
                 w2) w1) w"

definition ftp_reset :: "unit aio" where
  "ftp_reset w =
     await (ctx_post (ctx (self w)) (Format SERVER_ftp (server_id (self w))) None None None)
       (\<lambda>_. return_value ()) w"

definition stop :: "int option \<Rightarrow> unit aio" where
  "stop timeout w =
     await (ctx_post (ctx (self w)) (Format SERVER_stop (server_id (self w))) None None
              (Some (dflt 60 timeout)))
       (\<lambda>_. return_value ()) w"

definition start :: "int option \<Rightarrow> unit aio" where
  "start timeout w =
     await (ctx_post (ctx (self w)) (Format SERVER_start (server_id (self w))) None None
              (Some (dflt 60 timeout)))
       (\<lambda>_. return_value ()) w"

definition reset :: "int option \<Rightarrow> unit aio" where
  "reset timeout w =
     await (ctx_post (ctx (self w)) (Format SERVER_reset (server_id (self w))) None None
              (Some (dflt 60 timeout)))
       (\<lambda>_. return_value ()) w"

text \<open>Whether \<open>x[k]\<close> gives a value: \<open>x\<close> is a dict and has the key \<open>k\<close>.\<close>

definition has_key :: "string \<Rightarrow> pyval \<Rightarrow> bool" where
  "has_key k x = (case getitem x k of Inl e \<Rightarrow> False | Inr v \<Rightarrow> True)"

text \<open>
  An async generator, run until it is exhausted: the items it yields, in order, and the
  exception that ends it, if one does. Nothing is requested before the first item is
  asked for; the request of \<open>files\<close> and \<open>backups\<close> is the first thing the run does.
\<close>

type_synonym 'a agen = "world \<Rightarrow> ('a list \<times> exn option) \<times> world"

text \<open>
  The factory methods \<open>file\<close> and \<open>backup\<close> build a child handle from the handle's own
  dispatcher and server id; they issue no request. The method \<open>file\<close> is \<open>file'\<close> here,
  \<open>file\<close> being a word of the theory language.
\<close>

definition file' :: "pyval \<Rightarrow> world \<Rightarrow> AwaitingFile" where
  "file' pathway w =
     \<lparr>file_ctx = ctx (self w), file_server_id = server_id (self w), file_pathway = pathway\<rparr>"

definition backup :: "pyval \<Rightarrow> world \<Rightarrow> AwaitingBackup" where
  "backup backup_name w =
     \<lparr>backup_ctx = ctx (self w), backup_server_id = server_id (self w),
      backup_key = backup_name\<rparr>"

text \<open>The loop \<open>for file_ in data: yield FileModel(file_), self.file(file_["path"])\<close>.\<close>

fun files_loop :: "pyval list \<Rightarrow> (FileModel \<times> AwaitingFile) agen" where
  "files_loop [] w = (([], None), w)"
| "files_loop (f # rest) w =
     (case new_FileModel (models w) f of
        Inl e \<Rightarrow> (([], Some e), w)
      | Inr m \<Rightarrow>
          (case getitem f ''path'' of
             Inl e \<Rightarrow> (([], Some e), w)
           | Inr p \<Rightarrow>
               (case files_loop rest w of
                  ((ys, r), w') \<Rightarrow> (((m, file' p w) # ys, r), w'))))"

definition files ::
  "bool option \<Rightarrow> string option \<Rightarrow> bool option \<Rightarrow> int option
     \<Rightarrow> (FileModel \<times> AwaitingFile) agen" where
  "files hide_default path file_sizes timeout w =
     (case ctx_get (ctx (self w)) (Format SERVER_files (server_id (self w)))
             (Some [(''hide_default_files'', PBool (dflt False hide_default)),
                    (''path'', (case path of None \<Rightarrow> PNone | Some p \<Rightarrow> PStr p)),
                    (''with_filesizes'', PBool (dflt False file_sizes))])
             (Some (dflt 30 timeout)) w of
        (Inl e, w') \<Rightarrow> (([], Some e), w')
      | (Inr d, w') \<Rightarrow>
          (case iter d of
             Inl e \<Rightarrow> (([], Some e), w')
           | Inr xs \<Rightarrow> files_loop xs w'))"

text \<open>The loop \<open>for backup in data: yield BackupModel(backup), self.backup(backup["name"])\<close>.\<close>

fun backups_loop :: "pyval list \<Rightarrow> (BackupModel \<times> AwaitingBackup) agen" where
  "backups_loop [] w = (([], None), w)"
| "backups_loop (b # rest) w =
     (case new_BackupModel (models w) b of
        Inl e \<Rightarrow> (([], Some e), w)
      | Inr m \<Rightarrow>
          (case getitem b ''name'' of
             Inl e \<Rightarrow> (([], Some e), w)
           | Inr n \<Rightarrow>
               (case backups_loop rest w of
                  ((ys, r), w') \<Rightarrow> (((m, backup n w) # ys, r), w'))))"

definition backups :: "int option \<Rightarrow> (BackupModel \<times> AwaitingBackup) agen" where
  "backups timeout w =
     (case ctx_get (ctx (self w)) (Format SERVER_backups (server_id (self w))) None
             (Some (dflt 30 timeout)) w of
        (Inl e, w') \<Rightarrow> (([], Some e), w')
      | (Inr d, w') \<Rightarrow>
          (case iter d of
             Inl e \<Rightarrow> (([], Some e), w')
           | Inr xs \<Rightarrow> backups_loop xs w'))"

definition metrics :: "MetricsModel aio" where
  "metrics w =
     await (ctx_get (ctx (self w)) (Format SERVER_metrics (server_id (self w))) None None)
       (\<lambda>d. lift (new_MetricsModel (models w) d)) w"

text \<open>
  One call of a method of the handle with its arguments, and the state it leaves
  behind, whatever it returns, yields or raises.
\<close>

datatype invocation =
    Call_delete "int option"
  | Call_get
  | Call_update ServerSettings
  | Call_console_send string
  | Call_console_retrive "int option"
  | Call_sync
  | Call_duplicate "bool option" "int option"
  | Call_ftp_reset
  | Call_stop "int option"
  | Call_start "int option"
  | Call_reset "int option"
  | Call_files "bool option" "string option" "bool option" "int option"
  | Call_file pyval
  | Call_backups "int option"
  | Call_backup pyval
  | Call_metrics

fun invoke :: "invocation \<Rightarrow> world \<Rightarrow> world" where
  "invoke (Call_delete t) w = snd (delete t w)"
| "invoke Call_get w = snd (get w)"
| "invoke (Call_update s) w = snd (update s w)"
| "invoke (Call_console_send l) w = snd (console_send l w)"
| "invoke (Call_console_retrive n) w = snd (console_retrive n w)"
| "invoke Call_sync w = snd (sync w)"
| "invoke (Call_duplicate s t) w = snd (duplicate s t w)"
| "invoke Call_ftp_reset w = snd (ftp_reset w)"
| "invoke (Call_stop t) w = snd (stop t w)"
| "invoke (Call_start t) w = snd (start t w)"
| "invoke (Call_reset t) w = snd (reset t w)"
| "invoke (Call_files h p f t) w = snd (files h p f t w)"
| "invoke (Call_file p) w = w"
| "invoke (Call_backups t) w = snd (backups t w)"
| "invoke (Call_backup n) w = w"
| "invoke Call_metrics w = snd (metrics w)"

text \<open>The calls a run from \<open>w\<close> to \<open>w'\<close> issues: those added to the list it started with.\<close>

definition new_calls :: "world \<Rightarrow> world \<Rightarrow> request list" where
  "new_calls w w' = drop (length (calls w)) (calls w')"

section \<open>A remote side to run the handle against\<close>

text \<open>
  Model classes that read a fixed list of fields when they are built and raise at the
  first one the response cannot give.
\<close>

fun missing_key :: "string list \<Rightarrow> pyval \<Rightarrow> exn option" where
  "missing_key [] d = None"
| "missing_key (k # ks) d =
     (case getitem d k of Inl e \<Rightarrow> Some e | Inr v \<Rightarrow> missing_key ks d)"

definition example_classes :: model_classes where
  "example_classes =
     \<lparr>ServerModel_raises = missing_key [''id'', ''name'', ''user_data''],
      FileModel_raises = missing_key [''path''],
      BackupModel_raises = missing_key [''name'', ''timestamp''],
      MetricsModel_raises = missing_key []\<rparr>"

text \<open>
  A remote side that answers every route with a fixed body, and a handle on the server
  \<open>srv1\<close> that talks to it with no call issued yet.
\<close>

definition example_remote :: "request list \<Rightarrow> request \<Rightarrow> exn + pyval" where
  "example_remote tr r =
     (case req_url r of
        Format SERVER_console i \<Rightarrow> Inr (PDict [(''lines'', PList [PStr ''ready''])])
      | Format SERVER_duplicate i \<Rightarrow>
          Inr (PDict [(''id'', PStr ''srv2''), (''name'', PStr ''copy''),
                      (''user_data'', PStr ''vip'')])
      | Format SERVER_files i \<Rightarrow>
          Inr (PList [PDict [(''path'', PStr ''a.cfg''), (''size'', PInt 10)],
                      PDict [(''path'', PStr ''maps/b.bsp''), (''size'', PInt 20)]])
      | Format SERVER_backups i \<Rightarrow>
          Inr (PList [PDict [(''name'', PStr ''monday''), (''timestamp'', PInt 100)],
                      PDict [(''name'', PStr ''tuesday''), (''timestamp'', PInt 200)]])
      | Format rt i \<Rightarrow> Inr PNone)"

definition example_world :: world where
  "example_world =
     \<lparr>self = \<lparr>ctx = \<lparr>remote = example_remote\<rparr>, server_id = PStr ''srv1''\<rparr>, calls = [],
      models = example_classes\<rparr>"

text \<open>
  A handle on the same server whose remote side answers every call with the body \<open>v\<close>,
  and one whose remote side refuses every call.
\<close>

definition answering :: "pyval \<Rightarrow> world" where
  "answering v =
     \<lparr>self = \<lparr>ctx = \<lparr>remote = (\<lambda>tr r. Inr v)\<rparr>, server_id = PStr ''srv1''\<rparr>, calls = [],
      models = example_classes\<rparr>"

definition failing_remote :: "request list \<Rightarrow> request \<Rightarrow> exn + pyval" where
  "failing_remote tr r = Inl (RemoteError 500)"

definition failing_world :: world where
  "failing_world =
     \<lparr>self = \<lparr>ctx = \<lparr>remote = failing_remote\<rparr>, server_id = PStr ''srv1''\<rparr>, calls = [],
      models = example_classes\<rparr>"

section \<open>What each method leaves behind\<close>

lemma new_calls_append: "new_calls w (w\<lparr>calls := calls w @ xs\<rparr>) = xs"
  by (simp add: new_calls_def)

lemma dispatch_world: "snd (dispatch c r w) = w\<lparr>calls := calls w @ [r]\<rparr>"
  by (simp add: dispatch_def)

lemma await_return_world: "snd (await m (\<lambda>x. return_value (f x)) w) = snd (m w)"
  by (cases "m w") (auto simp: await_def return_value_def split: sum.splits)

lemma await_lift_world: "snd (await m (\<lambda>x. lift (f x)) w) = snd (m w)"
  by (cases "m w") (auto simp: await_def lift_def split: sum.splits)

lemma delete_world:
  "snd (delete t w) =
     w\<lparr>calls := calls w @ [\<lparr>req_verb = DELETE, req_url = Format SERVER_delete (server_id (self w)),
        req_params = None, req_data = None, req_read_json = None,
        req_timeout = Some (dflt 60 t)\<rparr>]\<rparr>"
  by (simp add: delete_def await_return_world ctx_delete_def dispatch_world)

lemma get_world:
  "snd (get w) =
     w\<lparr>calls := calls w @ [\<lparr>req_verb = GET, req_url = Format SERVER_get (server_id (self w)),
        req_params = None, req_data = None, req_read_json = None, req_timeout = None\<rparr>]\<rparr>"
  by (simp add: get_def await_lift_world ctx_get_def dispatch_world)

lemma update_world:
  "snd (update settings w) =
     w\<lparr>calls := calls w @ [\<lparr>req_verb = PUT, req_url = Format SERVER_update (server_id (self w)),
        req_params = None,
        req_data = Some (AList.update ''server_id'' (server_id (self w)) (playload settings)),
        req_read_json = None, req_timeout = None\<rparr>]\<rparr>"
  by (simp add: update_def await_return_world ctx_put_def dispatch_world)

lemma console_send_world:
  "snd (console_send line w) =
     w\<lparr>calls := calls w @ [\<lparr>req_verb = POST, req_url = Format SERVER_console (server_id (self w)),
        req_params = None, req_data = Some [(''line'', PStr line)], req_read_json = None,
        req_timeout = None\<rparr>]\<rparr>"
  by (simp add: console_send_def await_return_world ctx_post_def dispatch_world)

lemma console_retrive_world:
  "snd (console_retrive lines w) =
     (if dflt 1000 lines < 1 \<or> 100000 < dflt 1000 lines then w
      else w\<lparr>calls := calls w @ [\<lparr>req_verb = GET,
        req_url = Format SERVER_console (server_id (self w)),
        req_params = Some [(''max_lines'', PInt (dflt 1000 lines))], req_data = None,
        req_read_json = None, req_timeout = None\<rparr>]\<rparr>)"
  by (simp add: console_retrive_def raise_def await_lift_world ctx_get_def dispatch_world)

lemma sync_world:
  "snd (sync w) =
     w\<lparr>calls := calls w @ [\<lparr>req_verb = POST, req_url = Format SERVER_sync (server_id (self w)),
        req_params = None, req_data = None, req_read_json = None, req_timeout = None\<rparr>]\<rparr>"
  by (simp add: sync_def await_return_world ctx_post_def dispatch_world)

lemma ftp_reset_world:
  "snd (ftp_reset w) =
     w\<lparr>calls := calls w @ [\<lparr>req_verb = POST, req_url = Format SERVER_ftp (server_id (self w)),
        req_params = None, req_data = None, req_read_json = None, req_timeout = None\<rparr>]\<rparr>"
  by (simp add: ftp_reset_def await_return_world ctx_post_def dispatch_world)

lemma stop_world:
  "snd (stop t w) =
     w\<lparr>calls := calls w @ [\<lparr>req_verb = POST, req_url = Format SERVER_stop (server_id (self w)),
        req_params = None, req_data = None, req_read_json = None,
        req_timeout = Some (dflt 60 t)\<rparr>]\<rparr>"
  by (simp add: stop_def await_return_world ctx_post_def dispatch_world)

lemma start_world:
  "snd (start t w) =
     w\<lparr>calls := calls w @ [\<lparr>req_verb = POST, req_url = Format SERVER_start (server_id (self w)),
        req_params = None, req_data = None, req_read_json = None,
        req_timeout = Some (dflt 60 t)\<rparr>]\<rparr>"
  by (simp add: start_def await_return_world ctx_post_def dispatch_world)

lemma reset_world:
  "snd (reset t w) =
     w\<lparr>calls := calls w @ [\<lparr>req_verb = POST, req_url = Format SERVER_reset (server_id (self w)),
        req_params = None, req_data = None, req_read_json = None,
        req_timeout = Some (dflt 60 t)\<rparr>]\<rparr>"
  by (simp add: reset_def await_return_world ctx_post_def dispatch_world)

lemma metrics_world:
  "snd (metrics w) =
     w\<lparr>calls := calls w @ [\<lparr>req_verb = GET, req_url = Format SERVER_metrics (server_id (self w)),
        req_params = None, req_data = None, req_read_json = None, req_timeout = None\<rparr>]\<rparr>"
  by (simp add: metrics_def await_lift_world ctx_get_def dispatch_world)

lemma files_loop_world: "snd (files_loop xs w) = w"
  by (induction xs) (auto split: sum.splits prod.splits)

lemma backups_loop_world: "snd (backups_loop xs w) = w"
  by (induction xs) (auto split: sum.splits prod.splits)

lemma files_world:
  "snd (files hide_default path file_sizes t w) =
     w\<lparr>calls := calls w @ [\<lparr>req_verb = GET, req_url = Format SERVER_files (server_id (self w)),
        req_params = Some [(''hide_default_files'', PBool (dflt False hide_default)),
                           (''path'', (case path of None \<Rightarrow> PNone | Some p \<Rightarrow> PStr p)),
                           (''with_filesizes'', PBool (dflt False file_sizes))],
        req_data = None, req_read_json = None, req_timeout = Some (dflt 30 t)\<rparr>]\<rparr>"
  by (simp add: files_def ctx_get_def dispatch_def files_loop_world split: sum.splits)

lemma backups_world:
  "snd (backups t w) =
     w\<lparr>calls := calls w @ [\<lparr>req_verb = GET, req_url = Format SERVER_backups (server_id (self w)),
        req_params = None, req_data = None, req_read_json = None,
        req_timeout = Some (dflt 30 t)\<rparr>]\<rparr>"
  by (simp add: backups_def ctx_get_def dispatch_def backups_loop_world split: sum.splits)

lemma duplicate_world:
  "snd (duplicate s t w) =
     (let S = \<lparr>req_verb = POST, req_url = Format SERVER_sync (server_id (self w)),
                req_params = None, req_data = None, req_read_json = None, req_timeout = None\<rparr>;
          D = \<lparr>req_verb = POST, req_url = Format SERVER_duplicate (server_id (self w)),
                req_params = None, req_data = None, req_read_json = Some True,
                req_timeout = Some (dflt 60 t)\<rparr>
      in if dflt False s
         then (case remote (ctx (self w)) (calls w) S of
                 Inl e \<Rightarrow> w\<lparr>calls := calls w @ [S]\<rparr>
               | Inr v \<Rightarrow> w\<lparr>calls := calls w @ [S, D]\<rparr>)
         else w\<lparr>calls := calls w @ [D]\<rparr>)"
  by (simp add: duplicate_def sync_def await_def return_value_def lift_def ctx_post_def
        dispatch_def Let_def split: sum.splits)


lemma has_key_Inr: "getitem x k = Inr v \<Longrightarrow> has_key k x"
  by (simp add: has_key_def)

lemma has_key_Inl: "getitem x k = Inl e \<Longrightarrow> \<not> has_key k x"
  by (simp add: has_key_def)

lemma files_loop_models:
  "map fst (fst (fst (files_loop xs w))) =
     map FileModel
       (takeWhile (\<lambda>x. FileModel_raises (models w) x = None \<and> has_key ''path'' x) xs)"
proof (induction xs)
  case Nil
  show ?case by simp
next
  case (Cons a xs)
  show ?case
  proof (cases "FileModel_raises (models w) a")
    case (Some e)
    then show ?thesis by (simp add: new_FileModel_def)
  next
    case None
    show ?thesis
    proof (cases "getitem a ''path''")
      case (Inl e)
      with None show ?thesis by (simp add: new_FileModel_def has_key_Inl)
    next
      case (Inr p)
      with None Cons show ?thesis
        by (cases "files_loop xs w") (auto simp: new_FileModel_def has_key_Inr)
    qed
  qed
qed

lemma files_loop_pairs:
  "\<forall>x\<in>set xs. FileModel_raises (models w) x = None \<and> has_key ''path'' x \<Longrightarrow>
   snd (fst (files_loop xs w)) = None \<and>
   list_all2 (\<lambda>x (m, h). m = FileModel x \<and> getitem x ''path'' = Inr (file_pathway h) \<and>
                file_server_id h = server_id (self w) \<and> file_ctx h = ctx (self w))
     xs (fst (fst (files_loop xs w)))"
  by (induction xs)
     (auto simp: has_key_def file'_def new_FileModel_def split: sum.splits prod.splits)

lemma backups_loop_pairs:
  "\<forall>x\<in>set xs. BackupModel_raises (models w) x = None \<and> has_key ''name'' x \<Longrightarrow>
   snd (fst (backups_loop xs w)) = None \<and>
   list_all2 (\<lambda>x (m, h). m = BackupModel x \<and> getitem x ''name'' = Inr (backup_key h) \<and>
                backup_server_id h = server_id (self w) \<and> backup_ctx h = ctx (self w))
     xs (fst (fst (backups_loop xs w)))"
  by (induction xs)
     (auto simp: has_key_def backup_def new_BackupModel_def split: sum.splits prod.splits)

lemma files_loop_calls: "fst (files_loop xs (w\<lparr>calls := c\<rparr>)) = fst (files_loop xs w)"
  by (induction xs) (auto simp: file'_def new_FileModel_def split: sum.splits prod.splits)

lemma backups_loop_calls: "fst (backups_loop xs (w\<lparr>calls := c\<rparr>)) = fst (backups_loop xs w)"
  by (induction xs) (auto simp: backup_def new_BackupModel_def split: sum.splits prod.splits)

lemma files_result:
  "remote (ctx (self w)) (calls w)
     \<lparr>req_verb = GET, req_url = Format SERVER_files (server_id (self w)),
      req_params = Some [(''hide_default_files'', PBool (dflt False hide_default)),
                         (''path'', (case path of None \<Rightarrow> PNone | Some p \<Rightarrow> PStr p)),
                         (''with_filesizes'', PBool (dflt False file_sizes))],
      req_data = None, req_read_json = None, req_timeout = Some (dflt 30 t)\<rparr> = Inr (PList xs) \<Longrightarrow>
   fst (files hide_default path file_sizes t w) =
     fst (files_loop xs w)"
  by (simp add: files_def ctx_get_def dispatch_def files_loop_calls)

lemma backups_result:
  "remote (ctx (self w)) (calls w)
     \<lparr>req_verb = GET, req_url = Format SERVER_backups (server_id (self w)),
      req_params = None, req_data = None, req_read_json = None,
      req_timeout = Some (dflt 30 t)\<rparr> = Inr (PList xs) \<Longrightarrow>
   fst (backups t w) =
     fst (backups_loop xs w)"
  by (simp add: backups_def ctx_get_def dispatch_def backups_loop_calls)

lemma update_key_set: "fst ` set (AList.update k v al) = insert k (fst ` set al)"
  by (induction al) auto

section \<open>Reading the console\<close>

text \<open>
  C1: for every integer \<open>max_lines\<close> below 1 or above 100000, \<open>console_retrive\<close> raises
  the local validation error \<open>InvalidConsoleLine\<close> and issues no call to the dispatcher:
  the state it leaves is the one it started in, so no verb was invoked.
\<close>

theorem console_retrive_rejects:
  "n < 1 \<or> 100000 < n \<Longrightarrow>
   fst (console_retrive (Some n) w) = Inl InvalidConsoleLine \<and>
   snd (console_retrive (Some n) w) = w \<and>
   new_calls w (snd (console_retrive (Some n) w)) = []"
  by (auto simp: console_retrive_def dflt_def raise_def new_calls_def)

theorem console_retrive_rejects_witness:
  "((0::int) < 1 \<or> 100000 < (0::int)) \<and>
   fst (console_retrive (Some 0) example_world) = Inl InvalidConsoleLine \<and>
   new_calls example_world (snd (console_retrive (Some 0) example_world)) = [] \<and>
   fst (console_retrive (Some 100001) example_world) = Inl InvalidConsoleLine \<and>
   new_calls example_world (snd (console_retrive (Some 100001) example_world)) = []"
  using console_retrive_rejects [of 0 example_world]
    console_retrive_rejects [of 100001 example_world]
  by (simp add: new_calls_def)

text \<open>
  C5: for every integer \<open>max_lines\<close> from 1 to 100000, \<open>console_retrive\<close> issues exactly
  one call, a GET of the console route, and that call carries \<open>max_lines\<close> as the value
  of the query parameter \<open>max_lines\<close>.
\<close>

theorem console_retrive_one_get:
  "1 \<le> n \<Longrightarrow> n \<le> 100000 \<Longrightarrow>
   new_calls w (snd (console_retrive (Some n) w)) =
     [\<lparr>req_verb = GET, req_url = Format SERVER_console (server_id (self w)),
       req_params = Some [(''max_lines'', PInt n)], req_data = None,
       req_read_json = None, req_timeout = None\<rparr>]"
  by (simp add: console_retrive_world dflt_def new_calls_append)

theorem console_retrive_one_get_witness:
  "(1::int) \<le> 5 \<and> (5::int) \<le> 100000 \<and>
   new_calls example_world (snd (console_retrive (Some 5) example_world)) =
     [\<lparr>req_verb = GET, req_url = Format SERVER_console (PStr ''srv1''),
       req_params = Some [(''max_lines'', PInt 5)], req_data = None,
       req_read_json = None, req_timeout = None\<rparr>]"
  using console_retrive_one_get [of 5 example_world]
  by (simp add: example_world_def)

text \<open>
  C9: for every \<open>max_lines\<close> from 1 to 100000 and every JSON object the GET returns,
  \<open>console_retrive\<close> returns the value under the key \<open>lines\<close> of that object; when the
  object has no such key the call raises \<open>KeyError\<close> and returns nothing.
\<close>

theorem console_retrive_lines:
  "1 \<le> n \<Longrightarrow> n \<le> 100000 \<Longrightarrow>
   remote (ctx (self w)) (calls w)
     \<lparr>req_verb = GET, req_url = Format SERVER_console (server_id (self w)),
      req_params = Some [(''max_lines'', PInt n)], req_data = None,
      req_read_json = None, req_timeout = None\<rparr> = Inr (PDict kvs) \<Longrightarrow>
   fst (console_retrive (Some n) w) =
     (case map_of kvs ''lines'' of
        Some v \<Rightarrow> Inr v
      | None \<Rightarrow> Inl (KeyError ''lines''))"
  by (simp add: console_retrive_def dflt_def await_def ctx_get_def dispatch_def lift_def
           split: option.splits)

theorem console_retrive_lines_witness:
  "(1::int) \<le> 5 \<and> (5::int) \<le> 100000 \<and>
   fst (console_retrive (Some 5) example_world) = Inr (PList [PStr ''ready'']) \<and>
   fst (console_retrive (Some 5) (answering (PDict [(''log'', PNone)]))) = Inl (KeyError ''lines'')"
proof -
  have a: "remote (ctx (self example_world)) (calls example_world)
     \<lparr>req_verb = GET, req_url = Format SERVER_console (server_id (self example_world)),
      req_params = Some [(''max_lines'', PInt 5)], req_data = None,
      req_read_json = None, req_timeout = None\<rparr> = Inr (PDict [(''lines'', PList [PStr ''ready''])])"
    by (simp add: example_world_def example_remote_def)
  have b: "remote (ctx (self (answering (PDict [(''log'', PNone)]))))
     (calls (answering (PDict [(''log'', PNone)])))
     \<lparr>req_verb = GET,
      req_url = Format SERVER_console (server_id (self (answering (PDict [(''log'', PNone)])))),
      req_params = Some [(''max_lines'', PInt 5)], req_data = None,
      req_read_json = None, req_timeout = None\<rparr> = Inr (PDict [(''log'', PNone)])"
    by (simp add: answering_def)
  show ?thesis
    using console_retrive_lines [OF _ _ a] console_retrive_lines [OF _ _ b] by simp
qed

section \<open>Duplicating a server\<close>

text \<open>
  C2: \<open>duplicate(sync=True)\<close> issues the POST of the sync route first and the POST of
  the duplicate route directly after it; the duplicate POST is never issued before the
  sync POST or without it (when the sync call fails, its error ends the run and the sync
  POST is the only call). \<open>duplicate(sync=False)\<close>, and \<open>duplicate()\<close> with the default,
  issue the duplicate POST alone.
\<close>

theorem duplicate_sync_first:
  "new_calls w (snd (duplicate (Some True) t w)) =
     (case remote (ctx (self w)) (calls w)
             \<lparr>req_verb = POST, req_url = Format SERVER_sync (server_id (self w)),
              req_params = None, req_data = None, req_read_json = None,
              req_timeout = None\<rparr> of
        Inl e \<Rightarrow>
          [\<lparr>req_verb = POST, req_url = Format SERVER_sync (server_id (self w)),
            req_params = None, req_data = None, req_read_json = None, req_timeout = None\<rparr>]
      | Inr v \<Rightarrow>
          [\<lparr>req_verb = POST, req_url = Format SERVER_sync (server_id (self w)),
            req_params = None, req_data = None, req_read_json = None, req_timeout = None\<rparr>,
           \<lparr>req_verb = POST, req_url = Format SERVER_duplicate (server_id (self w)),
            req_params = None, req_data = None, req_read_json = Some True,
            req_timeout = Some (dflt 60 t)\<rparr>]) \<and>
   new_calls w (snd (duplicate (Some False) t w)) =
     [\<lparr>req_verb = POST, req_url = Format SERVER_duplicate (server_id (self w)),
       req_params = None, req_data = None, req_read_json = Some True,
       req_timeout = Some (dflt 60 t)\<rparr>] \<and>
   new_calls w (snd (duplicate None t w)) =
     [\<lparr>req_verb = POST, req_url = Format SERVER_duplicate (server_id (self w)),
       req_params = None, req_data = None, req_read_json = Some True,
       req_timeout = Some (dflt 60 t)\<rparr>]"
  by (simp add: duplicate_world dflt_def new_calls_append split: sum.splits)

theorem duplicate_sync_first_witness:
  "map req_url (new_calls example_world (snd (duplicate (Some True) None example_world))) =
     [Format SERVER_sync (PStr ''srv1''), Format SERVER_duplicate (PStr ''srv1'')] \<and>
   map req_url (new_calls failing_world (snd (duplicate (Some True) None failing_world))) =
     [Format SERVER_sync (PStr ''srv1'')] \<and>
   map req_url (new_calls example_world (snd (duplicate (Some False) None example_world))) =
     [Format SERVER_duplicate (PStr ''srv1'')]"
  using duplicate_sync_first [of example_world None] duplicate_sync_first [of failing_world None]
  by (simp add: example_world_def example_remote_def failing_world_def failing_remote_def)

text \<open>
  C10: \<open>duplicate\<close> returns exactly when the sync call, if one was asked for, succeeds,
  the duplicate POST answers with a JSON response, the model class accepts that response
  and the response has the key \<open>id\<close>. The pair it then returns is the model that wraps
  the response of the duplicate POST and a new server handle whose server id is the value
  under \<open>id\<close> of that response and whose dispatcher is the one of the handle that was
  duplicated; and the duplicate POST is the last call the run has issued.
\<close>

theorem duplicate_result:
  "(fst (duplicate s t w) = Inr (m, h)) =
     ((dflt False s \<longrightarrow>
         (\<exists>v. remote (ctx (self w)) (calls w)
                \<lparr>req_verb = POST, req_url = Format SERVER_sync (server_id (self w)),
                 req_params = None, req_data = None, req_read_json = None,
                 req_timeout = None\<rparr> = Inr v)) \<and>
      (\<exists>d. remote (ctx (self w))
              (calls w @
                 (if dflt False s
                  then [\<lparr>req_verb = POST, req_url = Format SERVER_sync (server_id (self w)),
                         req_params = None, req_data = None, req_read_json = None,
                         req_timeout = None\<rparr>]
                  else []))
              \<lparr>req_verb = POST, req_url = Format SERVER_duplicate (server_id (self w)),
               req_params = None, req_data = None, req_read_json = Some True,
               req_timeout = Some (dflt 60 t)\<rparr> = Inr d \<and>
           ServerModel_raises (models w) d = None \<and> m = ServerModel d \<and>
           getitem d ''id'' = Inr (server_id h) \<and> ctx h = ctx (self w))) \<and>
   (fst (duplicate s t w) = Inr (m, h) \<longrightarrow>
      new_calls w (snd (duplicate s t w)) =
        (if dflt False s
         then [\<lparr>req_verb = POST, req_url = Format SERVER_sync (server_id (self w)),
                req_params = None, req_data = None, req_read_json = None,
                req_timeout = None\<rparr>]
         else []) @
        [\<lparr>req_verb = POST, req_url = Format SERVER_duplicate (server_id (self w)),
          req_params = None, req_data = None, req_read_json = Some True,
          req_timeout = Some (dflt 60 t)\<rparr>])"
proof (intro conjI impI)
  show "(fst (duplicate s t w) = Inr (m, h)) =
     ((dflt False s \<longrightarrow>
         (\<exists>v. remote (ctx (self w)) (calls w)
                \<lparr>req_verb = POST, req_url = Format SERVER_sync (server_id (self w)),
                 req_params = None, req_data = None, req_read_json = None,
                 req_timeout = None\<rparr> = Inr v)) \<and>
      (\<exists>d. remote (ctx (self w))
              (calls w @
                 (if dflt False s
                  then [\<lparr>req_verb = POST, req_url = Format SERVER_sync (server_id (self w)),
                         req_params = None, req_data = None, req_read_json = None,
                         req_timeout = None\<rparr>]
                  else []))
              \<lparr>req_verb = POST, req_url = Format SERVER_duplicate (server_id (self w)),
               req_params = None, req_data = None, req_read_json = Some True,
               req_timeout = Some (dflt 60 t)\<rparr> = Inr d \<and>
           ServerModel_raises (models w) d = None \<and> m = ServerModel d \<and>
           getitem d ''id'' = Inr (server_id h) \<and> ctx h = ctx (self w)))"
    by (cases "dflt False s")
       (auto simp: duplicate_def sync_def await_def return_value_def lift_def ctx_post_def
          dispatch_def new_ServerModel_def split: sum.splits option.splits)
next
  assume "fst (duplicate s t w) = Inr (m, h)"
  then show "new_calls w (snd (duplicate s t w)) =
        (if dflt False s
         then [\<lparr>req_verb = POST, req_url = Format SERVER_sync (server_id (self w)),
                req_params = None, req_data = None, req_read_json = None,
                req_timeout = None\<rparr>]
         else []) @
        [\<lparr>req_verb = POST, req_url = Format SERVER_duplicate (server_id (self w)),
          req_params = None, req_data = None, req_read_json = Some True,
          req_timeout = Some (dflt 60 t)\<rparr>]"
    by (cases "dflt False s")
       (auto simp: duplicate_def sync_def await_def return_value_def lift_def ctx_post_def
          dispatch_def new_ServerModel_def new_calls_def split: sum.splits option.splits)
qed

theorem duplicate_result_witness:
  "fst (duplicate (Some True) None example_world) =
     Inr (ServerModel (PDict [(''id'', PStr ''srv2''), (''name'', PStr ''copy''),
                              (''user_data'', PStr ''vip'')]),
          \<lparr>ctx = \<lparr>remote = example_remote\<rparr>, server_id = PStr ''srv2''\<rparr>) \<and>
   map req_url (new_calls example_world (snd (duplicate (Some True) None example_world))) =
     [Format SERVER_sync (PStr ''srv1''), Format SERVER_duplicate (PStr ''srv1'')] \<and>
   fst (duplicate None None
          (answering (PDict [(''id'', PStr ''srv2''), (''name'', PStr ''copy'')]))) \<noteq>
     Inr (ServerModel (PDict [(''id'', PStr ''srv2''), (''name'', PStr ''copy'')]),
          \<lparr>ctx = \<lparr>remote = (\<lambda>tr r. Inr (PDict [(''id'', PStr ''srv2''), (''name'', PStr ''copy'')]))\<rparr>,
           server_id = PStr ''srv2''\<rparr>)"
proof -
  let ?d = "PDict [(''id'', PStr ''srv2''), (''name'', PStr ''copy''),
                   (''user_data'', PStr ''vip'')]"
  let ?h = "\<lparr>ctx = \<lparr>remote = example_remote\<rparr>, server_id = PStr ''srv2''\<rparr>"
  let ?e = "PDict [(''id'', PStr ''srv2''), (''name'', PStr ''copy'')]"
  have a: "fst (duplicate (Some True) None example_world) = Inr (ServerModel ?d, ?h)"
    using duplicate_result [of "Some True" None example_world "ServerModel ?d" ?h]
    by (simp add: example_world_def example_remote_def example_classes_def dflt_def)
  have b: "map req_url (new_calls example_world (snd (duplicate (Some True) None example_world))) =
     [Format SERVER_sync (PStr ''srv1''), Format SERVER_duplicate (PStr ''srv1'')]"
    using duplicate_result [of "Some True" None example_world "ServerModel ?d" ?h] a
    by (simp add: example_world_def dflt_def)
  have c: "fst (duplicate None None (answering ?e)) \<noteq>
     Inr (ServerModel ?e, \<lparr>ctx = \<lparr>remote = (\<lambda>tr r. Inr ?e)\<rparr>, server_id = PStr ''srv2''\<rparr>)"
    using duplicate_result [of None None "answering ?e" "ServerModel ?e"
        "\<lparr>ctx = \<lparr>remote = (\<lambda>tr r. Inr ?e)\<rparr>, server_id = PStr ''srv2''\<rparr>"]
    by (simp add: answering_def example_classes_def dflt_def)
  from a b c show ?thesis by simp
qed

section \<open>Updating the settings\<close>

text \<open>
  C6: for every settings value, \<open>update\<close> issues exactly one call, a PUT of the update
  route, whose body is the wire-format mapping of the settings with the entry
  \<open>server_id\<close> set to the handle's key: every other key of the mapping keeps its value,
  and no other key is added.
\<close>

theorem update_put:
  "\<exists>body.
     new_calls w (snd (update settings w)) =
       [\<lparr>req_verb = PUT, req_url = Format SERVER_update (server_id (self w)),
         req_params = None, req_data = Some body, req_read_json = None,
         req_timeout = None\<rparr>] \<and>
     map_of body = (map_of (playload settings))(''server_id'' \<mapsto> server_id (self w)) \<and>
     fst ` set body = insert ''server_id'' (fst ` set (playload settings))"
  by (simp add: update_world new_calls_append update_conv' update_key_set)

theorem update_put_witness:
  "\<exists>body.
     new_calls example_world
       (snd (update \<lparr>playload = [(''name'', PStr ''lobby''), (''autostop'', PBool True)]\<rparr>
               example_world)) =
       [\<lparr>req_verb = PUT, req_url = Format SERVER_update (PStr ''srv1''),
         req_params = None, req_data = Some body, req_read_json = None,
         req_timeout = None\<rparr>] \<and>
     map_of body ''server_id'' = Some (PStr ''srv1'') \<and>
     map_of body ''name'' = Some (PStr ''lobby'') \<and>
     map_of body ''autostop'' = Some (PBool True) \<and>
     map_of body ''location'' = None"
proof -
  from update_put [of example_world
      "\<lparr>playload = [(''name'', PStr ''lobby''), (''autostop'', PBool True)]\<rparr>"]
  obtain body where
    c: "new_calls example_world
          (snd (update \<lparr>playload = [(''name'', PStr ''lobby''), (''autostop'', PBool True)]\<rparr>
                  example_world)) =
          [\<lparr>req_verb = PUT, req_url = Format SERVER_update (server_id (self example_world)),
            req_params = None, req_data = Some body, req_read_json = None,
            req_timeout = None\<rparr>]" and
    m: "map_of body =
          (map_of (playload \<lparr>playload = [(''name'', PStr ''lobby''), (''autostop'', PBool True)]\<rparr>))
            (''server_id'' \<mapsto> server_id (self example_world))"
    by blast
  from c have "new_calls example_world
       (snd (update \<lparr>playload = [(''name'', PStr ''lobby''), (''autostop'', PBool True)]\<rparr>
               example_world)) =
       [\<lparr>req_verb = PUT, req_url = Format SERVER_update (PStr ''srv1''),
         req_params = None, req_data = Some body, req_read_json = None,
         req_timeout = None\<rparr>]"
    by (simp add: example_world_def)
  moreover from m have "map_of body ''server_id'' = Some (PStr ''srv1'')"
    by (simp add: example_world_def)
  moreover from m have "map_of body ''name'' = Some (PStr ''lobby'')" by simp
  moreover from m have "map_of body ''autostop'' = Some (PBool True)" by simp
  moreover from m have "map_of body ''location'' = None" by simp
  ultimately show ?thesis by blast
qed

section \<open>Listing files and backups\<close>

text \<open>
  C7: for every combination of \<open>hide_default\<close>, \<open>path\<close> and \<open>file_sizes\<close>, the listing of
  files issues a single GET that carries them as the query parameters
  \<open>hide_default_files\<close>, \<open>path\<close> and \<open>with_filesizes\<close>, and it does not filter the array
  that comes back: the models it yields are those of the elements of the array, in order,
  none left out on account of the three options (the run only stops early, at the first
  element that the model class refuses or that cannot give its \<open>path\<close>).
\<close>

theorem files_forwards_options:
  "new_calls w (snd (files hide_default path file_sizes t w)) =
     [\<lparr>req_verb = GET, req_url = Format SERVER_files (server_id (self w)),
       req_params = Some [(''hide_default_files'', PBool (dflt False hide_default)),
                          (''path'', (case path of None \<Rightarrow> PNone | Some p \<Rightarrow> PStr p)),
                          (''with_filesizes'', PBool (dflt False file_sizes))],
       req_data = None, req_read_json = None, req_timeout = Some (dflt 30 t)\<rparr>] \<and>
   (\<forall>xs. remote (ctx (self w)) (calls w)
            \<lparr>req_verb = GET, req_url = Format SERVER_files (server_id (self w)),
             req_params = Some [(''hide_default_files'', PBool (dflt False hide_default)),
                                (''path'', (case path of None \<Rightarrow> PNone | Some p \<Rightarrow> PStr p)),
                                (''with_filesizes'', PBool (dflt False file_sizes))],
             req_data = None, req_read_json = None, req_timeout = Some (dflt 30 t)\<rparr> =
          Inr (PList xs) \<longrightarrow>
      map fst (fst (fst (files hide_default path file_sizes t w))) =
        map FileModel
          (takeWhile (\<lambda>x. FileModel_raises (models w) x = None \<and> has_key ''path'' x) xs))"
  by (simp add: files_world new_calls_append files_result files_loop_models)

theorem files_forwards_options_witness:
  "map req_params
     (new_calls example_world
        (snd (files (Some True) (Some ''maps'') (Some True) None example_world))) =
     [Some [(''hide_default_files'', PBool True), (''path'', PStr ''maps''),
            (''with_filesizes'', PBool True)]] \<and>
   map fst (fst (fst (files (Some True) (Some ''maps'') (Some True) None example_world))) =
     [FileModel (PDict [(''path'', PStr ''a.cfg''), (''size'', PInt 10)]),
      FileModel (PDict [(''path'', PStr ''maps/b.bsp''), (''size'', PInt 20)])]"
  using files_forwards_options [of example_world "Some True" "Some ''maps''" "Some True" None]
  by (simp add: example_world_def example_remote_def example_classes_def dflt_def has_key_def)

text \<open>
  C3, as amended: for every JSON array of N elements that the listing GET returns, each
  element an object that has the natural key (\<open>path\<close> for a file, \<open>name\<close> for a backup)
  and that the model class accepts, \<open>files\<close> and \<open>backups\<close> yield exactly N pairs in the
  order of the array and end normally; the model of a pair wraps the element, and its
  handle is a child handle on the same dispatcher and server id, addressed by the value
  under the element's natural key. An array of no element yields nothing.
\<close>

theorem listing_pairs:
  "(remote (ctx (self w)) (calls w)
      \<lparr>req_verb = GET, req_url = Format SERVER_files (server_id (self w)),
       req_params = Some [(''hide_default_files'', PBool (dflt False hide_default)),
                          (''path'', (case path of None \<Rightarrow> PNone | Some p \<Rightarrow> PStr p)),
                          (''with_filesizes'', PBool (dflt False file_sizes))],
       req_data = None, req_read_json = None, req_timeout = Some (dflt 30 t)\<rparr> = Inr (PList xs) \<and>
    (\<forall>x\<in>set xs. FileModel_raises (models w) x = None \<and> has_key ''path'' x) \<longrightarrow>
      snd (fst (files hide_default path file_sizes t w)) = None \<and>
      length (fst (fst (files hide_default path file_sizes t w))) = length xs \<and>
      list_all2 (\<lambda>x (m, h). m = FileModel x \<and> getitem x ''path'' = Inr (file_pathway h) \<and>
                   file_server_id h = server_id (self w) \<and> file_ctx h = ctx (self w))
        xs (fst (fst (files hide_default path file_sizes t w)))) \<and>
   (remote (ctx (self w)) (calls w)
      \<lparr>req_verb = GET, req_url = Format SERVER_backups (server_id (self w)),
       req_params = None, req_data = None, req_read_json = None,
       req_timeout = Some (dflt 30 t)\<rparr> = Inr (PList ys) \<and>
    (\<forall>y\<in>set ys. BackupModel_raises (models w) y = None \<and> has_key ''name'' y) \<longrightarrow>
      snd (fst (backups t w)) = None \<and>
      length (fst (fst (backups t w))) = length ys \<and>
      list_all2 (\<lambda>y (m, h). m = BackupModel y \<and> getitem y ''name'' = Inr (backup_key h) \<and>
                   backup_server_id h = server_id (self w) \<and> backup_ctx h = ctx (self w))
        ys (fst (fst (backups t w))))"
proof (intro conjI impI, goal_cases)
  case 1
  then show ?case using files_loop_pairs [of xs w] by (simp add: files_result)
next
  case 2
  then show ?case
    using files_loop_pairs [of xs w, THEN conjunct2, THEN list_all2_lengthD]
    by (simp add: files_result)
next
  case 3
  then show ?case using files_loop_pairs [of xs w] by (simp add: files_result)
next
  case 4
  then show ?case using backups_loop_pairs [of ys w] by (simp add: backups_result)
next
  case 5
  then show ?case
    using backups_loop_pairs [of ys w, THEN conjunct2, THEN list_all2_lengthD]
    by (simp add: backups_result)
next
  case 6
  then show ?case using backups_loop_pairs [of ys w] by (simp add: backups_result)
qed

theorem listing_pairs_witness:
  "fst (files (Some True) None None None example_world) =
     ([(FileModel (PDict [(''path'', PStr ''a.cfg''), (''size'', PInt 10)]),
        \<lparr>file_ctx = \<lparr>remote = example_remote\<rparr>, file_server_id = PStr ''srv1'',
         file_pathway = PStr ''a.cfg''\<rparr>),
       (FileModel (PDict [(''path'', PStr ''maps/b.bsp''), (''size'', PInt 20)]),
        \<lparr>file_ctx = \<lparr>remote = example_remote\<rparr>, file_server_id = PStr ''srv1'',
         file_pathway = PStr ''maps/b.bsp''\<rparr>)],
      None) \<and>
   fst (backups None example_world) =
     ([(BackupModel (PDict [(''name'', PStr ''monday''), (''timestamp'', PInt 100)]),
        \<lparr>backup_ctx = \<lparr>remote = example_remote\<rparr>, backup_server_id = PStr ''srv1'',
         backup_key = PStr ''monday''\<rparr>),
       (BackupModel (PDict [(''name'', PStr ''tuesday''), (''timestamp'', PInt 200)]),
        \<lparr>backup_ctx = \<lparr>remote = example_remote\<rparr>, backup_server_id = PStr ''srv1'',
         backup_key = PStr ''tuesday''\<rparr>)],
      None) \<and>
   fst (files None None None None (answering (PList []))) = ([], None) \<and>
   fst (backups None (answering (PList []))) = ([], None)"
proof -
  let ?f1 = "PDict [(''path'', PStr ''a.cfg''), (''size'', PInt 10)]"
  let ?f2 = "PDict [(''path'', PStr ''maps/b.bsp''), (''size'', PInt 20)]"
  let ?b1 = "PDict [(''name'', PStr ''monday''), (''timestamp'', PInt 100)]"
  let ?b2 = "PDict [(''name'', PStr ''tuesday''), (''timestamp'', PInt 200)]"
  have k: "has_key ''path'' ?f1" "has_key ''path'' ?f2" "has_key ''name'' ?b1"
    "has_key ''name'' ?b2"
    by (simp_all add: has_key_def)
  note p = listing_pairs [of example_world "Some True" None None None "[?f1, ?f2]" "[?b1, ?b2]"]
  have f: "snd (fst (files (Some True) None None None example_world)) = None \<and>
      list_all2 (\<lambda>x (m, h). m = FileModel x \<and> getitem x ''path'' = Inr (file_pathway h) \<and>
                   file_server_id h = server_id (self example_world) \<and>
                   file_ctx h = ctx (self example_world))
        [?f1, ?f2] (fst (fst (files (Some True) None None None example_world)))"
    using p k by (simp add: example_world_def example_remote_def example_classes_def dflt_def)
  have b: "snd (fst (backups None example_world)) = None \<and>
      list_all2 (\<lambda>y (m, h). m = BackupModel y \<and> getitem y ''name'' = Inr (backup_key h) \<and>
                   backup_server_id h = server_id (self example_world) \<and>
                   backup_ctx h = ctx (self example_world))
        [?b1, ?b2] (fst (fst (backups None example_world)))"
    using p k by (simp add: example_world_def example_remote_def example_classes_def dflt_def)
  have f0: "fst (files None None None None (answering (PList []))) = ([], None)"
    using listing_pairs [of "answering (PList [])" None None None None "[]" "[]"]
    by (cases "fst (files None None None None (answering (PList [])))")
       (simp add: answering_def)
  have b0: "fst (backups None (answering (PList []))) = ([], None)"
    using listing_pairs [of "answering (PList [])" None None None None "[]" "[]"]
    by (cases "fst (backups None (answering (PList [])))")
       (simp add: answering_def)
  from f have "fst (files (Some True) None None None example_world) =
     ([(FileModel ?f1,
        \<lparr>file_ctx = \<lparr>remote = example_remote\<rparr>, file_server_id = PStr ''srv1'',
         file_pathway = PStr ''a.cfg''\<rparr>),
       (FileModel ?f2,
        \<lparr>file_ctx = \<lparr>remote = example_remote\<rparr>, file_server_id = PStr ''srv1'',
         file_pathway = PStr ''maps/b.bsp''\<rparr>)],
      None)"
    by (cases "fst (files (Some True) None None None example_world)")
       (auto simp: list_all2_Cons1 example_world_def)
  moreover from b have "fst (backups None example_world) =
     ([(BackupModel ?b1,
        \<lparr>backup_ctx = \<lparr>remote = example_remote\<rparr>, backup_server_id = PStr ''srv1'',
         backup_key = PStr ''monday''\<rparr>),
       (BackupModel ?b2,
        \<lparr>backup_ctx = \<lparr>remote = example_remote\<rparr>, backup_server_id = PStr ''srv1'',
         backup_key = PStr ''tuesday''\<rparr>)],
      None)"
    by (cases "fst (backups None example_world)")
       (auto simp: list_all2_Cons1 example_world_def)
  ultimately show ?thesis using f0 b0 by simp
qed

text \<open>
  C3 as it was stated, for every JSON array, fails. An array of one element that is an
  object without the natural key yields no pair at all, and the run ends with
  \<open>KeyError\<close>; so does an array whose one element has the natural key and lacks a field
  the model class reads.
\<close>

theorem listing_missing_key_counterexample:
  "fst (files None None None None (answering (PList [PDict []]))) =
     ([], Some (KeyError ''path'')) \<and>
   fst (backups None (answering (PList [PDict []]))) = ([], Some (KeyError ''name'')) \<and>
   fst (backups None (answering (PList [PDict [(''name'', PStr ''monday'')]]))) =
     ([], Some (KeyError ''timestamp''))"
  by (simp add: files_def backups_def ctx_get_def dispatch_def answering_def
        example_classes_def new_FileModel_def new_BackupModel_def)

section \<open>The identifying key of the handle\<close>

text \<open>
  C8: for every method of the server handle (\<open>delete\<close>, \<open>get\<close>, \<open>update\<close>,
  \<open>console_send\<close>, \<open>console_retrive\<close>, \<open>sync\<close>, \<open>duplicate\<close>, \<open>ftp_reset\<close>, \<open>stop\<close>,
  \<open>start\<close>, \<open>reset\<close>, \<open>files\<close>, \<open>file\<close>, \<open>backups\<close>, \<open>backup\<close>, \<open>metrics\<close>) and every
  input, the \<open>server_id\<close> of the handle after the call is the one before it, whether the
  call returns or raises.
\<close>

theorem server_id_unchanged: "server_id (self (invoke c w)) = server_id (self w)"
proof (cases c)
  case (Call_console_retrive n)
  then show ?thesis by (simp add: console_retrive_world)
next
  case (Call_duplicate s t)
  then show ?thesis by (simp add: duplicate_world Let_def split: sum.splits)
qed (simp_all add: delete_world get_world update_world console_send_world sync_world
       ftp_reset_world stop_world start_world reset_world files_world backups_world
       metrics_world)

theorem server_id_unchanged_witness:
  "server_id (self (invoke (Call_duplicate (Some True) None) example_world)) = PStr ''srv1'' \<and>
   server_id (self (invoke (Call_console_retrive (Some 0)) example_world)) = PStr ''srv1'' \<and>
   server_id (self (invoke (Call_files None None None None) failing_world)) = PStr ''srv1''"
  using server_id_unchanged [of "Call_duplicate (Some True) None" example_world]
    server_id_unchanged [of "Call_console_retrive (Some 0)" example_world]
    server_id_unchanged [of "Call_files None None None None" failing_world]
  by (simp add: example_world_def failing_world_def)

section \<open>Timeouts\<close>

text \<open>
  C4, as amended: \<open>delete\<close>, \<open>stop\<close>, \<open>start\<close>, \<open>reset\<close> and \<open>duplicate\<close> take a timeout
  with the default 60, \<open>files\<close> and \<open>backups\<close> one with the default 30, and each passes
  it to the dispatcher with its own request. \<open>get\<close>, \<open>update\<close>, \<open>console_send\<close>,
  \<open>console_retrive\<close>, \<open>sync\<close>, \<open>ftp_reset\<close> and \<open>metrics\<close> take no timeout and pass none
  to the dispatcher, and neither does the sync call that \<open>duplicate(sync=True)\<close> makes
  first.
\<close>

theorem timeout_forwarding:
  "map req_timeout (new_calls w (snd (delete t w))) = [Some (dflt 60 t)] \<and>
   map req_timeout (new_calls w (snd (stop t w))) = [Some (dflt 60 t)] \<and>
   map req_timeout (new_calls w (snd (start t w))) = [Some (dflt 60 t)] \<and>
   map req_timeout (new_calls w (snd (reset t w))) = [Some (dflt 60 t)] \<and>
   (if dflt False s
    then map req_timeout (new_calls w (snd (duplicate s t w))) \<in>
           {[None], [None, Some (dflt 60 t)]}
    else map req_timeout (new_calls w (snd (duplicate s t w))) = [Some (dflt 60 t)]) \<and>
   map req_timeout (new_calls w (snd (files hide_default path file_sizes t w))) =
     [Some (dflt 30 t)] \<and>
   map req_timeout (new_calls w (snd (backups t w))) = [Some (dflt 30 t)] \<and>
   map req_timeout (new_calls w (snd (get w))) = [None] \<and>
   map req_timeout (new_calls w (snd (update settings w))) = [None] \<and>
   map req_timeout (new_calls w (snd (console_send line w))) = [None] \<and>
   map req_timeout (new_calls w (snd (console_retrive n w))) \<in> {[], [None]} \<and>
   map req_timeout (new_calls w (snd (sync w))) = [None] \<and>
   map req_timeout (new_calls w (snd (ftp_reset w))) = [None] \<and>
   map req_timeout (new_calls w (snd (metrics w))) = [None]"
proof -
  have d: "if dflt False s
    then map req_timeout (new_calls w (snd (duplicate s t w))) \<in>
           {[None], [None, Some (dflt 60 t)]}
    else map req_timeout (new_calls w (snd (duplicate s t w))) = [Some (dflt 60 t)]"
    by (simp add: duplicate_world Let_def new_calls_append split: sum.splits)
  have c: "map req_timeout (new_calls w (snd (console_retrive n w))) \<in> {[], [None]}"
    by (simp add: console_retrive_world new_calls_append new_calls_def)
  show ?thesis
    using d c
    by (simp add: delete_world stop_world start_world reset_world files_world backups_world
          get_world update_world console_send_world sync_world ftp_reset_world metrics_world
          new_calls_append dflt_def)
qed

theorem timeout_forwarding_witness:
  "map req_timeout (new_calls example_world (snd (delete None example_world))) = [Some 60] \<and>
   map req_timeout (new_calls example_world (snd (stop (Some 45) example_world))) = [Some 45] \<and>
   map req_timeout (new_calls example_world (snd (backups None example_world))) = [Some 30] \<and>
   map req_timeout (new_calls example_world (snd (sync example_world))) = [None]"
  using timeout_forwarding [of example_world None] timeout_forwarding [of example_world "Some 45"]
  by (simp add: dflt_def)

text \<open>
  C4 as it was stated, for every method that issues a request, fails: \<open>get\<close> has no
  parameter at all, and the one request it issues carries no timeout.
\<close>

theorem get_timeout_counterexample:
  "new_calls example_world (snd (get example_world)) =
     [\<lparr>req_verb = GET, req_url = Format SERVER_get (PStr ''srv1''), req_params = None,
       req_data = None, req_read_json = None, req_timeout = None\<rparr>]"
  by (simp add: get_world new_calls_def example_world_def)

end
